theory Spec2Isabelle
  imports Complex_Main "HOL-Library.Signed_Division"
begin

section \<open>Numbers, arrays and the build\<close>

text \<open>
  The geometry code of \<^verbatim>\<open>src/p8est_geometry.c\<close> computes with C doubles. The
  development below reads every double as a real number and every operation of the C
  library as the exact function it approximates: \<^verbatim>\<open>tan\<close>, \<^verbatim>\<open>cos\<close>, \<^verbatim>\<open>sqrt\<close> are
  \<^term>\<open>tan\<close>, \<^term>\<open>cos\<close>, \<^term>\<open>sqrt\<close>, and \<^verbatim>\<open>log\<close> is the natural logarithm
  \<^term>\<open>ln\<close>. Rounding, overflow, underflow, infinities and NaN are outside this
  reading: where C would divide by zero or leave the domain of a function, the real
  expression has some value that no theorem below relies on, and a product that is
  positive here can be \<open>0.0\<close> in the program when it underflows. The statements below
  are statements of exact arithmetic.

  An array \<^verbatim>\<open>double a[3]\<close> is a function from the index to the entry and a
  \<^verbatim>\<open>double J[3][3]\<close> a function of two indices; an output parameter is passed in
  and returned updated. The tree index \<^verbatim>\<open>p4est_topidx_t\<close> is a signed 32 bit
  integer on which the code only compares, divides by 4, takes the remainder by 6 and
  subtracts 6 from a value of at least 6. None of these overflows, so it is an
  \<^typ>\<open>int\<close> here, with C's truncating \<open>sdiv\<close> and \<open>smod\<close>.
\<close>

type_synonym double_array = "nat \<Rightarrow> real"
type_synonym double_matrix = "nat \<Rightarrow> nat \<Rightarrow> real"

definition M_PI_4 :: real where
  "M_PI_4 = pi / 4"

text \<open>
  \<^verbatim>\<open>pow (x, y)\<close> of the C library: repeated multiplication when the exponent is an
  integer (also for a base that is negative or zero), and \<open>exp (y * ln x)\<close> for a
  positive base otherwise. For a base that is not positive and an exponent that is not
  an integer C has no real result; the theorems below that read such a power assume a
  positive base.
\<close>

definition pow :: "real \<Rightarrow> real \<Rightarrow> real" where
  "pow x y =
     (if y = of_int \<lfloor>y\<rfloor>
      then (if 0 \<le> y then x ^ nat \<lfloor>y\<rfloor> else 1 / x ^ nat \<lfloor>- y\<rfloor>)
      else x powr y)"

text \<open>Storing one entry of a matrix: \<^verbatim>\<open>J[i][j] = v\<close>.\<close>

definition store :: "double_matrix \<Rightarrow> nat \<Rightarrow> nat \<Rightarrow> real \<Rightarrow> double_matrix" where
  "store J i j v = J(i := (J i)(j := v))"

text \<open>The determinant as the code writes it out, three times, by the first row.\<close>

definition det3 :: "double_matrix \<Rightarrow> real" where
  "det3 J =
     J 0 0 * (J 1 1 * J 2 2 - J 1 2 * J 2 1)
     + J 0 1 * (J 1 2 * J 2 0 - J 1 0 * J 2 2)
     + J 0 2 * (J 1 0 * J 2 1 - J 1 1 * J 2 0)"

text \<open>
  The ways a call does not return: \<^verbatim>\<open>P4EST_ASSERT\<close> aborts in a debug build,
  \<^verbatim>\<open>SC_CHECK_NOT_REACHED\<close> aborts in every build, and a table read at an index
  outside the table has no defined behaviour.
\<close>

datatype error = AssertionFailed | NotReached | OutOfBounds

text \<open>
  Two things the functions use are declared in headers outside this source file and are
  parameters here: whether \<^verbatim>\<open>P4EST_DEBUG\<close> is defined, which turns
  \<^verbatim>\<open>P4EST_ASSERT\<close> from nothing into a check, and the tolerance
  \<^verbatim>\<open>SC_1000_EPS\<close> of the range checks.
\<close>

record build =
  P4EST_DEBUG :: bool
  SC_1000_EPS :: real

definition P4EST_ASSERT :: "build \<Rightarrow> bool \<Rightarrow> bool" where
  "P4EST_ASSERT b c = (if P4EST_DEBUG b then c else True)"

section \<open>The geometry interface\<close>

text \<open>
  \<^verbatim>\<open>p8est_geometry_t\<close> holds four function pointers. Each function receives the
  geometry itself and reads its parameters from it; in the model an operation is a
  closure that already holds these parameters.
\<close>

type_synonym X_op = "build \<Rightarrow> int \<Rightarrow> double_array \<Rightarrow> double_array \<Rightarrow> error + double_array"
type_synonym D_op = "build \<Rightarrow> int \<Rightarrow> double_array \<Rightarrow> error + real"
type_synonym J_op = "build \<Rightarrow> int \<Rightarrow> double_array \<Rightarrow> double_matrix \<Rightarrow> error + double_matrix \<times> real"

record p8est_geometry =
  geom_X :: X_op
  geom_D :: D_op
  geom_J :: J_op
  geom_Jit :: J_op

text \<open>
  A local array \<^verbatim>\<open>double J[3][3]\<close> at its declaration: the one that
  \<^verbatim>\<open>p8est_geometry_Jit\<close> hands to \<^verbatim>\<open>geom->J\<close>, and the one that the \<open>D\<close>
  operations of shell and sphere fill themselves. C leaves its content indeterminate,
  and all nine entries are stored before any is read; the model starts it at zero.
\<close>

definition J_local :: double_matrix where
  "J_local = (\<lambda>i j. 0)"

definition p8est_geometry_Jit :: "J_op \<Rightarrow> J_op" where
  "p8est_geometry_Jit geomJ b which_tree abc Jit =
     (case geomJ b which_tree abc J_local of
        Inl e \<Rightarrow> Inl e
      | Inr (J, detJ) \<Rightarrow>
          let idetJ = 1 / detJ;
              Jit = store Jit 0 0 ((J 1 1 * J 2 2 - J 1 2 * J 2 1) * idetJ);
              Jit = store Jit 0 1 ((J 1 2 * J 2 0 - J 1 0 * J 2 2) * idetJ);
              Jit = store Jit 0 2 ((J 1 0 * J 2 1 - J 1 1 * J 2 0) * idetJ);
              Jit = store Jit 1 0 ((J 0 2 * J 2 1 - J 0 1 * J 2 2) * idetJ);
              Jit = store Jit 1 1 ((J 0 0 * J 2 2 - J 0 2 * J 2 0) * idetJ);
              Jit = store Jit 1 2 ((J 0 1 * J 2 0 - J 0 0 * J 2 1) * idetJ);
              Jit = store Jit 2 0 ((J 0 1 * J 1 2 - J 1 1 * J 0 2) * idetJ);
              Jit = store Jit 2 1 ((J 0 2 * J 1 0 - J 1 2 * J 0 0) * idetJ);
              Jit = store Jit 2 2 ((J 0 0 * J 1 1 - J 1 0 * J 0 1) * idetJ)
          in Inr (Jit, detJ))"

section \<open>Identity geometry\<close>

definition p8est_geometry_identity_X :: X_op where
  "p8est_geometry_identity_X b which_tree abc xyz =
     Inr (\<lambda>i. if i < 3 then abc i else xyz i)"

definition p8est_geometry_identity_D :: D_op where
  "p8est_geometry_identity_D b which_tree abc = Inr 1"

definition p8est_geometry_identity_J :: J_op where
  "p8est_geometry_identity_J b which_tree abc J =
     (let J = store J 2 2 1; J = store J 1 1 (J 2 2); J = store J 0 0 (J 1 1);
          J = store J 2 0 0; J = store J 1 2 (J 2 0); J = store J 0 1 (J 1 2);
          J = store J 0 2 0; J = store J 2 1 (J 0 2); J = store J 1 0 (J 2 1)
      in Inr (J, 1))"

definition p8est_geometry_new_identity :: p8est_geometry where
  "p8est_geometry_new_identity =
     \<lparr> geom_X = p8est_geometry_identity_X,
       geom_D = p8est_geometry_identity_D,
       geom_J = p8est_geometry_identity_J,
       geom_Jit = p8est_geometry_identity_J \<rparr>"

section \<open>Shell geometry\<close>

datatype p8est_geometry_builtin_type_t =
  P8EST_GEOMETRY_BUILTIN_MAGIC
  | P8EST_GEOMETRY_BUILTIN_SHELL
  | P8EST_GEOMETRY_BUILTIN_SPHERE

record p8est_geometry_builtin_shell =
  shell_type :: p8est_geometry_builtin_type_t
  shell_R2 :: real
  shell_R1 :: real
  shell_R2byR1 :: real
  shell_R1sqrbyR2 :: real
  shell_Rlog :: real

text \<open>The five assertions that open each of the three shell operations.\<close>

definition shell_asserts ::
  "p8est_geometry_builtin_shell \<Rightarrow> build \<Rightarrow> int \<Rightarrow> double_array \<Rightarrow> bool" where
  "shell_asserts shell b which_tree abc =
     (P4EST_ASSERT b (shell_type shell = P8EST_GEOMETRY_BUILTIN_SHELL)
      \<and> P4EST_ASSERT b (0 \<le> which_tree \<and> which_tree < 24)
      \<and> P4EST_ASSERT b (abc 0 < 1 + SC_1000_EPS b \<and> abc 0 > - 1 - SC_1000_EPS b)
      \<and> P4EST_ASSERT b (abc 1 < 1 + SC_1000_EPS b \<and> abc 1 > - 1 - SC_1000_EPS b)
      \<and> P4EST_ASSERT b (abc 2 < 2 + SC_1000_EPS b \<and> abc 2 > 1 - SC_1000_EPS b))"

definition p8est_geometry_shell_X :: "p8est_geometry_builtin_shell \<Rightarrow> X_op" where
  "p8est_geometry_shell_X shell b which_tree abc xyz =
     (if shell_asserts shell b which_tree abc then
        let x = tan (abc 0 * M_PI_4);
            y = tan (abc 1 * M_PI_4);
            R = shell_R1sqrbyR2 shell * pow (shell_R2byR1 shell) (abc 2);
            q = R / sqrt (x * x + y * y + 1);
            patch = which_tree sdiv 4
        in if patch = 3 then Inr (xyz(0 := q * y, 1 := - q * x, 2 := q))
           else if patch = 2 then Inr (xyz(0 := - q, 1 := - q * x, 2 := q * y))
           else if patch = 1 then Inr (xyz(0 := - q * y, 1 := - q * x, 2 := - q))
           else if patch = 0 then Inr (xyz(0 := q, 1 := - q * x, 2 := - q * y))
           else if patch = 4 then Inr (xyz(0 := - q * x, 1 := q, 2 := q * y))
           else if patch = 5 then Inr (xyz(0 := q * x, 1 := - q, 2 := q * y))
           else Inl NotReached
      else Inl AssertionFailed)"

definition p8est_geometry_shell_D :: "p8est_geometry_builtin_shell \<Rightarrow> D_op" where
  "p8est_geometry_shell_D shell b which_tree abc =
     (if shell_asserts shell b which_tree abc then
        let cx = cos (abc 0 * M_PI_4);
            derx = M_PI_4 / (cx * cx);
            x = tan (abc 0 * M_PI_4);
            cy = cos (abc 1 * M_PI_4);
            dery = M_PI_4 / (cy * cy);
            y = tan (abc 1 * M_PI_4);
            R = shell_R1sqrbyR2 shell * pow (shell_R2byR1 shell) (abc 2);
            t = 1 / (x * x + y * y + 1);
            q = R * sqrt t;
            J = J_local;
            J = store J 0 0 (1 - x * x * t);
            J = store J 0 1 (- x * y * t);
            J = store J 0 2 x;
            J = store J 1 0 (- x * y * t);
            J = store J 1 1 (1 - y * y * t);
            J = store J 1 2 y;
            J = store J 2 0 (- x * t);
            J = store J 2 1 (- y * t);
            J = store J 2 2 1;
            detJ = det3 J * q * q * q * derx * dery * shell_Rlog shell
        in if P4EST_ASSERT b (detJ > 0) then Inr detJ else Inl AssertionFailed
      else Inl AssertionFailed)"

definition p8est_geometry_shell_J :: "p8est_geometry_builtin_shell \<Rightarrow> J_op" where
  "p8est_geometry_shell_J shell b which_tree abc J =
     (if shell_asserts shell b which_tree abc then
        let Rlog = shell_Rlog shell;
            cx = cos (abc 0 * M_PI_4);
            derx = M_PI_4 / (cx * cx);
            x = tan (abc 0 * M_PI_4);
            cy = cos (abc 1 * M_PI_4);
            dery = M_PI_4 / (cy * cy);
            y = tan (abc 1 * M_PI_4);
            R = shell_R1sqrbyR2 shell * pow (shell_R2byR1 shell) (abc 2);
            t = 1 / (x * x + y * y + 1);
            q = R * sqrt t;
            patch = which_tree sdiv 4
        in case
             (if patch = 3 then
                  let J = store J 0 0 (- q * x * y * t * derx);
                      J = store J 0 1 (q * (1 - y * y * t) * dery);
                      J = store J 0 2 (q * y * Rlog);
                      J = store J 1 0 (- q * (1 - x * x * t) * derx);
                      J = store J 1 1 (q * x * y * t * dery);
                      J = store J 1 2 (- q * x * Rlog);
                      J = store J 2 0 (- q * x * t * derx);
                      J = store J 2 1 (- q * y * t * dery)
                  in Inr (store J 2 2 (q * Rlog))
                else if patch = 2 then
                  let J = store J 0 0 (q * x * t * derx);
                      J = store J 0 1 (q * y * t * dery);
                      J = store J 0 2 (- q * Rlog);
                      J = store J 1 0 (- q * (1 - x * x * t) * derx);
                      J = store J 1 1 (q * x * y * t * dery);
                      J = store J 1 2 (- q * x * Rlog);
                      J = store J 2 0 (- q * x * y * t * derx);
                      J = store J 2 1 (q * (1 - y * y * t) * dery)
                  in Inr (store J 2 2 (q * y * Rlog))
                else if patch = 1 then
                  let J = store J 0 0 (q * x * y * t * derx);
                      J = store J 0 1 (- q * (1 - y * y * t) * dery);
                      J = store J 0 2 (- q * y * Rlog);
                      J = store J 1 0 (- q * (1 - x * x * t) * derx);
                      J = store J 1 1 (q * x * y * t * dery);
                      J = store J 1 2 (- q * x * Rlog);
                      J = store J 2 0 (q * x * t * derx);
                      J = store J 2 1 (q * y * t * dery)
                  in Inr (store J 2 2 (- q * Rlog))
                else if patch = 0 then
                  let J = store J 0 0 (- q * x * t * derx);
                      J = store J 0 1 (- q * y * t * dery);
                      J = store J 0 2 (q * Rlog);
                      J = store J 1 0 (- q * (1 - x * x * t) * derx);
                      J = store J 1 1 (q * x * y * t * dery);
                      J = store J 1 2 (- q * x * Rlog);
                      J = store J 2 0 (q * x * y * t * derx);
                      J = store J 2 1 (- q * (1 - y * y * t) * dery)
                  in Inr (store J 2 2 (- q * y * Rlog))
                else if patch = 4 then
                  let J = store J 0 0 (- q * (1 - x * x * t) * derx);
                      J = store J 0 1 (q * x * y * t * dery);
                      J = store J 0 2 (- q * x * Rlog);
                      J = store J 1 0 (- q * x * t * derx);
                      J = store J 1 1 (- q * y * t * dery);
                      J = store J 1 2 (q * Rlog);
                      J = store J 2 0 (- q * x * y * t * derx);
                      J = store J 2 1 (q * (1 - y * y * t) * dery)
                  in Inr (store J 2 2 (q * y * Rlog))
                else if patch = 5 then
                  let J = store J 0 0 (q * (1 - x * x * t) * derx);
                      J = store J 0 1 (- q * x * y * t * dery);
                      J = store J 0 2 (q * x * Rlog);
                      J = store J 1 0 (q * x * t * derx);
                      J = store J 1 1 (q * y * t * dery);
                      J = store J 1 2 (- q * Rlog);
                      J = store J 2 0 (- q * x * y * t * derx);
                      J = store J 2 1 (q * (1 - y * y * t) * dery)
                  in Inr (store J 2 2 (q * y * Rlog))
                else Inl NotReached)
           of Inl e \<Rightarrow> Inl e
            | Inr J \<Rightarrow>
                let detJ = det3 J
                in if P4EST_ASSERT b (detJ > 0) then Inr (J, detJ) else Inl AssertionFailed
      else Inl AssertionFailed)"

definition p8est_geometry_new_shell :: "real \<Rightarrow> real \<Rightarrow> p8est_geometry" where
  "p8est_geometry_new_shell R2 R1 =
     (let shell =
            \<lparr> shell_type = P8EST_GEOMETRY_BUILTIN_SHELL,
              shell_R2 = R2,
              shell_R1 = R1,
              shell_R2byR1 = R2 / R1,
              shell_R1sqrbyR2 = R1 * R1 / R2,
              shell_Rlog = ln (R2 / R1) \<rparr>
      in \<lparr> geom_X = p8est_geometry_shell_X shell,
           geom_D = p8est_geometry_shell_D shell,
           geom_J = p8est_geometry_shell_J shell,
           geom_Jit = p8est_geometry_Jit (p8est_geometry_shell_J shell) \<rparr>)"

section \<open>Sphere geometry\<close>

record p8est_geometry_builtin_sphere =
  sphere_type :: p8est_geometry_builtin_type_t
  sphere_R2 :: real
  sphere_R1 :: real
  sphere_R0 :: real
  sphere_R2byR1 :: real
  sphere_R1sqrbyR2 :: real
  sphere_R1log :: real
  sphere_R1byR0 :: real
  sphere_R0sqrbyR1 :: real
  sphere_R0log :: real
  sphere_Clength :: real
  sphere_CdetJ :: real

text \<open>
  The assertions that open each of the three sphere operations; the check of
  \<^verbatim>\<open>abc[2]\<close> sits in an \<^verbatim>\<open>#ifdef P4EST_DEBUG\<close> block of its own.
\<close>

definition sphere_asserts ::
  "p8est_geometry_builtin_sphere \<Rightarrow> build \<Rightarrow> int \<Rightarrow> double_array \<Rightarrow> bool" where
  "sphere_asserts sphere b which_tree abc =
     (P4EST_ASSERT b (sphere_type sphere = P8EST_GEOMETRY_BUILTIN_SPHERE)
      \<and> P4EST_ASSERT b (0 \<le> which_tree \<and> which_tree < 13)
      \<and> P4EST_ASSERT b (abc 0 < 1 + SC_1000_EPS b \<and> abc 0 > - 1 - SC_1000_EPS b)
      \<and> P4EST_ASSERT b (abc 1 < 1 + SC_1000_EPS b \<and> abc 1 > - 1 - SC_1000_EPS b)
      \<and> P4EST_ASSERT b
          (if which_tree < 12
           then abc 2 < 2 + SC_1000_EPS b \<and> abc 2 > 1 - SC_1000_EPS b
           else abc 2 < 1 + SC_1000_EPS b \<and> abc 2 > - 1 - SC_1000_EPS b))"

definition p8est_geometry_sphere_X :: "p8est_geometry_builtin_sphere \<Rightarrow> X_op" where
  "p8est_geometry_sphere_X sphere b which_tree abc xyz =
     (if sphere_asserts sphere b which_tree abc then
        if which_tree < 12 then
          let (x, y, q) =
                (if which_tree < 6 then
                   let x = tan (abc 0 * M_PI_4);
                       y = tan (abc 1 * M_PI_4);
                       R = sphere_R1sqrbyR2 sphere * pow (sphere_R2byR1 sphere) (abc 2);
                       q = R / sqrt (x * x + y * y + 1)
                   in (x, y, q)
                 else
                   let p = 2 - abc 2;
                       tanx = tan (abc 0 * M_PI_4);
                       tany = tan (abc 1 * M_PI_4);
                       x = p * abc 0 + (1 - p) * tanx;
                       y = p * abc 1 + (1 - p) * tany;
                       R = sphere_R0sqrbyR1 sphere * pow (sphere_R1byR0 sphere) (abc 2);
                       q = R / sqrt (1 + (1 - p) * (tanx * tanx + tany * tany) + 2 * p)
                   in (x, y, q));
              direction = which_tree smod 6
          in if direction = 0 then Inr (xyz(0 := q * x, 1 := - q, 2 := q * y))
             else if direction = 1 then Inr (xyz(0 := q * x, 1 := q * y, 2 := q))
             else if direction = 2 then Inr (xyz(0 := q * x, 1 := q, 2 := - q * y))
             else if direction = 3 then Inr (xyz(0 := q, 1 := - q * x, 2 := - q * y))
             else if direction = 4 then Inr (xyz(0 := - q * y, 1 := - q * x, 2 := - q))
             else if direction = 5 then Inr (xyz(0 := - q, 1 := - q * x, 2 := q * y))
             else Inl NotReached
        else
          Inr (xyz(0 := abc 0 * sphere_Clength sphere,
                   1 := abc 1 * sphere_Clength sphere,
                   2 := abc 2 * sphere_Clength sphere))
      else Inl AssertionFailed)"

definition p8est_geometry_sphere_D :: "p8est_geometry_builtin_sphere \<Rightarrow> D_op" where
  "p8est_geometry_sphere_D sphere b which_tree abc =
     (if sphere_asserts sphere b which_tree abc then
        if which_tree < 12 then
          let (J, factor) =
                (if which_tree < 6 then
                   let cx = cos (abc 0 * M_PI_4);
                       derx = M_PI_4 / (cx * cx);
                       x = tan (abc 0 * M_PI_4);
                       cy = cos (abc 1 * M_PI_4);
                       dery = M_PI_4 / (cy * cy);
                       y = tan (abc 1 * M_PI_4);
                       R = sphere_R1sqrbyR2 sphere * pow (sphere_R2byR1 sphere) (abc 2);
                       t = 1 / (x * x + y * y + 1);
                       q = R * sqrt t;
                       Rlog = sphere_R1log sphere;
                       J = J_local;
                       J = store J 0 0 (1 - x * x * t);
                       J = store J 0 1 (- x * y * t);
                       J = store J 0 2 x;
                       J = store J 1 0 (- x * y * t);
                       J = store J 1 1 (1 - y * y * t);
                       J = store J 1 2 y;
                       J = store J 2 0 (- x * t);
                       J = store J 2 1 (- y * t);
                       J = store J 2 2 1
                   in (J, q * q * q * derx * dery * Rlog)
                 else
                   let p = 2 - abc 2;
                       cx = cos (abc 0 * M_PI_4);
                       derx = (1 - p) * M_PI_4 / (cx * cx);
                       tanx = tan (abc 0 * M_PI_4);
                       x = p * abc 0 + (1 - p) * tanx;
                       cy = cos (abc 1 * M_PI_4);
                       dery = (1 - p) * M_PI_4 / (cy * cy);
                       tany = tan (abc 1 * M_PI_4);
                       y = p * abc 1 + (1 - p) * tany;
                       R = sphere_R0sqrbyR1 sphere * pow (sphere_R1byR0 sphere) (abc 2);
                       tsqr = tanx * tanx + tany * tany;
                       t = 1 / (1 + (1 - p) * tsqr + 2 * p);
                       q = R * sqrt t;
                       Rlog = sphere_R0log sphere + t * (1 - (1 / 2) * tsqr);
                       J = J_local;
                       J = store J 0 0 (p + (1 - x * tanx * t) * derx);
                       J = store J 0 1 (- x * tany * t * dery);
                       J = store J 0 2 (x * Rlog - abc 0 + tanx);
                       J = store J 1 0 (- y * tanx * t * derx);
                       J = store J 1 1 (p + (1 - y * tany * t) * dery);
                       J = store J 1 2 (y * Rlog - abc 1 + tany);
                       J = store J 2 0 (- tanx * t * derx);
                       J = store J 2 1 (- tany * t * dery);
                       J = store J 2 2 Rlog
                   in (J, q * q * q));
              detJ = det3 J * factor
          in if P4EST_ASSERT b (detJ > 0) then Inr detJ else Inl AssertionFailed
        else Inr (sphere_CdetJ sphere)
      else Inl AssertionFailed)"

text \<open>The two tables of \<^verbatim>\<open>p8est_geometry_sphere_J\<close>, row by row.\<close>

definition mapJ :: "nat list list" where
  "mapJ =
     [ [0, 2, 1],
       [0, 1, 2],
       [0, 2, 1],
       [1, 2, 0],
       [1, 0, 2],
       [1, 2, 0] ]"

definition mapM :: "real list list" where
  "mapM =
     [ [1, 1, - 1],
       [1, 1, 1],
       [1, - 1, 1],
       [- 1, - 1, 1],
       [- 1, - 1, - 1],
       [- 1, 1, - 1] ]"

definition p8est_geometry_sphere_J :: "p8est_geometry_builtin_sphere \<Rightarrow> J_op" where
  "p8est_geometry_sphere_J sphere b which_tree abc J =
     (if sphere_asserts sphere b which_tree abc then
        if which_tree < 12 then
          case
            (if which_tree < 6 then
               let cx = cos (abc 0 * M_PI_4);
                   derx = M_PI_4 / (cx * cx);
                   x = tan (abc 0 * M_PI_4);
                   cy = cos (abc 1 * M_PI_4);
                   dery = M_PI_4 / (cy * cy);
                   y = tan (abc 1 * M_PI_4);
                   R = sphere_R1sqrbyR2 sphere * pow (sphere_R2byR1 sphere) (abc 2);
                   t = 1 / (x * x + y * y + 1);
                   q = R * sqrt t;
                   Rlog = sphere_R1log sphere;
                   pid = which_tree
               in if 0 \<le> pid \<and> pid < 6 then
                    let j0 = mapJ ! nat pid ! 0;
                        j1 = mapJ ! nat pid ! 1;
                        j2 = mapJ ! nat pid ! 2;
                        q0 = mapM ! nat pid ! 0 * q;
                        q1 = mapM ! nat pid ! 1 * q;
                        q2 = mapM ! nat pid ! 2 * q;
                        J = store J j0 0 (q0 * (1 - x * x * t) * derx);
                        J = store J j0 1 (- q0 * x * y * t * dery);
                        J = store J j0 2 (q0 * x * Rlog);
                        J = store J j1 0 (- q1 * x * y * t * derx);
                        J = store J j1 1 (q1 * (1 - y * y * t) * dery);
                        J = store J j1 2 (q1 * y * Rlog);
                        J = store J j2 0 (- q2 * x * t * derx);
                        J = store J j2 1 (- q2 * y * t * dery);
                        J = store J j2 2 (q2 * Rlog)
                    in Inr J
                  else Inl OutOfBounds
             else
               let p = 2 - abc 2;
                   cx = cos (abc 0 * M_PI_4);
                   derx = (1 - p) * M_PI_4 / (cx * cx);
                   tanx = tan (abc 0 * M_PI_4);
                   x = p * abc 0 + (1 - p) * tanx;
                   cy = cos (abc 1 * M_PI_4);
                   dery = (1 - p) * M_PI_4 / (cy * cy);
                   tany = tan (abc 1 * M_PI_4);
                   y = p * abc 1 + (1 - p) * tany;
                   R = sphere_R0sqrbyR1 sphere * pow (sphere_R1byR0 sphere) (abc 2);
                   tsqr = tanx * tanx + tany * tany;
                   t = 1 / (1 + (1 - p) * tsqr + 2 * p);
                   q = R * sqrt t;
                   Rlog = sphere_R0log sphere + t * (1 - (1 / 2) * tsqr);
                   pid = which_tree - 6
               in if 0 \<le> pid \<and> pid < 6 then
                    let j0 = mapJ ! nat pid ! 0;
                        j1 = mapJ ! nat pid ! 1;
                        j2 = mapJ ! nat pid ! 2;
                        q0 = mapM ! nat pid ! 0 * q;
                        q1 = mapM ! nat pid ! 1 * q;
                        q2 = mapM ! nat pid ! 2 * q;
                        J = store J j0 0 (q0 * (p + (1 - x * tanx * t) * derx));
                        J = store J j0 1 (- q0 * x * tany * t * dery);
                        J = store J j0 2 (q0 * (x * Rlog - abc 0 + tanx));
                        J = store J j1 0 (- q1 * y * tanx * t * derx);
                        J = store J j1 1 (q1 * (p + (1 - y * tany * t) * dery));
                        J = store J j1 2 (q1 * (y * Rlog - abc 1 + tany));
                        J = store J j2 0 (- q2 * tanx * t * derx);
                        J = store J j2 1 (- q2 * tany * t * dery);
                        J = store J j2 2 (q2 * Rlog)
                    in Inr J
                  else Inl OutOfBounds)
          of Inl e \<Rightarrow> Inl e
           | Inr J \<Rightarrow>
               let detJ = det3 J
               in if P4EST_ASSERT b (detJ > 0) then Inr (J, detJ) else Inl AssertionFailed
        else
          let J = store J 2 2 (sphere_Clength sphere);
              J = store J 1 1 (J 2 2);
              J = store J 0 0 (J 1 1);
              J = store J 2 0 0;
              J = store J 1 2 (J 2 0);
              J = store J 0 1 (J 1 2);
              J = store J 0 2 0;
              J = store J 2 1 (J 0 2);
              J = store J 1 0 (J 2 1)
          in Inr (J, sphere_CdetJ sphere)
      else Inl AssertionFailed)"

definition p8est_geometry_new_sphere :: "real \<Rightarrow> real \<Rightarrow> real \<Rightarrow> p8est_geometry" where
  "p8est_geometry_new_sphere R2 R1 R0 =
     (let sphere =
            \<lparr> sphere_type = P8EST_GEOMETRY_BUILTIN_SPHERE,
              sphere_R2 = R2,
              sphere_R1 = R1,
              sphere_R0 = R0,
              sphere_R2byR1 = R2 / R1,
              sphere_R1sqrbyR2 = R1 * R1 / R2,
              sphere_R1log = ln (R2 / R1),
              sphere_R1byR0 = R1 / R0,
              sphere_R0sqrbyR1 = R0 * R0 / R1,
              sphere_R0log = ln (R1 / R0),
              sphere_Clength = R0 / sqrt 3,
              sphere_CdetJ = pow (R0 / sqrt 3) 3 \<rparr>
      in \<lparr> geom_X = p8est_geometry_sphere_X sphere,
           geom_D = p8est_geometry_sphere_D sphere,
           geom_J = p8est_geometry_sphere_J sphere,
           geom_Jit = p8est_geometry_Jit (p8est_geometry_sphere_J sphere) \<rparr>)"

section \<open>The connect type of the connectivity header\<close>

text \<open>
  \<^verbatim>\<open>p8est_connect_type_t\<close> is a C enumeration: each enumerator is a name for an
  integer constant, and two of the five are defined as another enumerator.
\<close>

definition P8EST_CONNECT_FACE :: int where
  "P8EST_CONNECT_FACE = 31"

definition P8EST_CONNECT_EDGE :: int where
  "P8EST_CONNECT_EDGE = 32"

definition P8EST_CONNECT_CORNER :: int where
  "P8EST_CONNECT_CORNER = 33"

definition P8EST_CONNECT_DEFAULT :: int where
  "P8EST_CONNECT_DEFAULT = P8EST_CONNECT_EDGE"

definition P8EST_CONNECT_FULL :: int where
  "P8EST_CONNECT_FULL = P8EST_CONNECT_CORNER"

section \<open>Reading results\<close>

text \<open>
  The definitions of this section are not code of the library. They name what the
  statements below say about it: the three entries of an array and the nine of a
  matrix, the outcome of a call with the output array read in this way, small matrix
  algebra, and the concrete inputs of the examples.
\<close>

type_synonym triple = "real \<times> real \<times> real"

definition vec3 :: "double_array \<Rightarrow> triple" where
  "vec3 a = (a 0, a 1, a 2)"

definition mat3 :: "double_matrix \<Rightarrow> triple \<times> triple \<times> triple" where
  "mat3 J = (vec3 (J 0), vec3 (J 1), vec3 (J 2))"

definition X_result :: "error + double_array \<Rightarrow> error + triple" where
  "X_result r = map_sum id vec3 r"

definition J_result :: "error + double_matrix \<times> real \<Rightarrow> error + (triple \<times> triple \<times> triple) \<times> real" where
  "J_result r = map_sum id (map_prod mat3 id) r"

definition double3 :: "real \<Rightarrow> real \<Rightarrow> real \<Rightarrow> double_array" where
  "double3 a0 a1 a2 = (\<lambda>i. if i = 0 then a0 else if i = 1 then a1 else a2)"

definition identity3 :: "triple \<times> triple \<times> triple" where
  "identity3 = ((1, 0, 0), (0, 1, 0), (0, 0, 1))"

text \<open>
  The cofactor of entry \<open>(i, j)\<close> of a 3 by 3 matrix, sign included, written with
  cyclic indices; the inverse transpose has the cofactor over the determinant at
  \<open>(i, j)\<close>.
\<close>

definition cofactor :: "double_matrix \<Rightarrow> nat \<Rightarrow> nat \<Rightarrow> real" where
  "cofactor J i j =
     J ((i + 1) mod 3) ((j + 1) mod 3) * J ((i + 2) mod 3) ((j + 2) mod 3)
     - J ((i + 1) mod 3) ((j + 2) mod 3) * J ((i + 2) mod 3) ((j + 1) mod 3)"

definition inverse_transpose :: "double_matrix \<Rightarrow> double_matrix" where
  "inverse_transpose J = (\<lambda>i j. cofactor J i j / det3 J)"

definition transpose3 :: "double_matrix \<Rightarrow> double_matrix" where
  "transpose3 A = (\<lambda>i j. A j i)"

definition mat_mult :: "double_matrix \<Rightarrow> double_matrix \<Rightarrow> double_matrix" where
  "mat_mult A B = (\<lambda>i j. A i 0 * B 0 j + A i 1 * B 1 j + A i 2 * B 2 j)"


text \<open>
  The parameter block that \<^verbatim>\<open>p8est_geometry_new_shell\<close> fills, under a name.
\<close>

definition shell_of :: "real \<Rightarrow> real \<Rightarrow> p8est_geometry_builtin_shell" where
  "shell_of R2 R1 =
     \<lparr> shell_type = P8EST_GEOMETRY_BUILTIN_SHELL, shell_R2 = R2, shell_R1 = R1,
       shell_R2byR1 = R2 / R1, shell_R1sqrbyR2 = R1 * R1 / R2, shell_Rlog = ln (R2 / R1) \<rparr>"

text \<open>
  The determinant of the shell map in closed form: the third power of \<open>q\<close> times the
  two angular derivatives times the logarithm of the ratio of the radii.
\<close>

definition shell_detJ :: "p8est_geometry_builtin_shell \<Rightarrow> double_array \<Rightarrow> real" where
  "shell_detJ shell abc =
     (let cx = cos (abc 0 * M_PI_4);
          derx = M_PI_4 / (cx * cx);
          x = tan (abc 0 * M_PI_4);
          cy = cos (abc 1 * M_PI_4);
          dery = M_PI_4 / (cy * cy);
          y = tan (abc 1 * M_PI_4);
          R = shell_R1sqrbyR2 shell * pow (shell_R2byR1 shell) (abc 2);
          t = 1 / (x * x + y * y + 1);
          q = R * sqrt t
      in q * q * q * derx * dery * shell_Rlog shell)"

text \<open>
  The parameter block that \<^verbatim>\<open>p8est_geometry_new_sphere\<close> fills, under a name.
\<close>

definition sphere_of :: "real \<Rightarrow> real \<Rightarrow> real \<Rightarrow> p8est_geometry_builtin_sphere" where
  "sphere_of R2 R1 R0 =
     \<lparr> sphere_type = P8EST_GEOMETRY_BUILTIN_SPHERE, sphere_R2 = R2, sphere_R1 = R1, sphere_R0 = R0,
       sphere_R2byR1 = R2 / R1, sphere_R1sqrbyR2 = R1 * R1 / R2, sphere_R1log = ln (R2 / R1),
       sphere_R1byR0 = R1 / R0, sphere_R0sqrbyR1 = R0 * R0 / R1, sphere_R0log = ln (R1 / R0),
       sphere_Clength = R0 / sqrt 3, sphere_CdetJ = pow (R0 / sqrt 3) 3 \<rparr>"

text \<open>
  What it means for \<open>D\<close> to be the determinant of \<open>J\<close> at one call: when \<open>J\<close> returns
  a matrix and a determinant, \<open>D\<close> returns that determinant, and it is the determinant
  of that matrix; when \<open>J\<close> aborts, \<open>D\<close> aborts in the same way.
\<close>

definition D_agrees_with_J ::
  "p8est_geometry \<Rightarrow> build \<Rightarrow> int \<Rightarrow> double_array \<Rightarrow> double_matrix \<Rightarrow> bool" where
  "D_agrees_with_J g b which_tree abc J =
     (case geom_J g b which_tree abc J of
        Inl e \<Rightarrow> geom_D g b which_tree abc = Inl e
      | Inr (J', detJ) \<Rightarrow> geom_D g b which_tree abc = Inr detJ \<and> detJ = det3 J')"

text \<open>
  The reference domains: the first two coordinates in \<open>[-1, 1]\<close>, the third in
  \<open>[1, 2]\<close> on a shell tree and in \<open>[-1, 1]\<close> on the center cube of the sphere.
\<close>

definition shell_domain :: "double_array \<Rightarrow> bool" where
  "shell_domain abc =
     (- 1 \<le> abc 0 \<and> abc 0 \<le> 1 \<and> - 1 \<le> abc 1 \<and> abc 1 \<le> 1 \<and> 1 \<le> abc 2 \<and> abc 2 \<le> 2)"

definition sphere_domain :: "int \<Rightarrow> double_array \<Rightarrow> bool" where
  "sphere_domain which_tree abc =
     (- 1 \<le> abc 0 \<and> abc 0 \<le> 1 \<and> - 1 \<le> abc 1 \<and> abc 1 \<le> 1
      \<and> (if which_tree < 12 then 1 \<le> abc 2 \<and> abc 2 \<le> 2 else - 1 \<le> abc 2 \<and> abc 2 \<le> 1))"

text \<open>
  Both operations return at one call, \<open>D\<close> returns the determinant that \<open>J\<close> returns,
  and this is the determinant of the matrix that \<open>J\<close> fills.
\<close>

definition D_returns_det_J ::
  "p8est_geometry \<Rightarrow> build \<Rightarrow> int \<Rightarrow> double_array \<Rightarrow> double_matrix \<Rightarrow> bool" where
  "D_returns_det_J g b which_tree abc J =
     (case (geom_D g b which_tree abc, geom_J g b which_tree abc J) of
        (Inr d, Inr (J', detJ)) \<Rightarrow> d = detJ \<and> d = det3 J'
      | _ \<Rightarrow> False)"


text \<open>
  The build of the examples: assertions on, and the tolerance at a thousand times the
  machine epsilon of a double.
\<close>

definition debug_build :: build where
  "debug_build = \<lparr> P4EST_DEBUG = True, SC_1000_EPS = 1000 * (2220446049250313 / 10 ^ 31) \<rparr>"

section \<open>Auxiliary facts\<close>

lemma store_apply:
  "store J i j v i' j' = (if i' = i then (if j' = j then v else J i j') else J i' j')"
  by (simp add: store_def)

lemma sdiv_nonneg: "0 \<le> (k::int) \<Longrightarrow> 0 \<le> l \<Longrightarrow> k sdiv l = k div l"
  by (simp add: signed_divide_int_def sgn_if)


lemma pow_simps: "pow x 1 = x" "pow x 2 = x * x" "pow x 3 = x * x * x"
  by (simp_all add: pow_def power2_eq_square power3_eq_cube)

lemma debug_build_simps:
  "P4EST_DEBUG debug_build" "0 < SC_1000_EPS debug_build"
  by (simp_all add: debug_build_def)

lemma pow_pos: "0 < x \<Longrightarrow> 0 < pow x y"
  by (simp add: pow_def)

lemma patch_cases:
  assumes "0 \<le> (t::int)" "t < 24"
  shows "t sdiv 4 = 0 \<or> t sdiv 4 = 1 \<or> t sdiv 4 = 2 \<or> t sdiv 4 = 3 \<or> t sdiv 4 = 4 \<or> t sdiv 4 = 5"
  using assms by (simp add: sdiv_nonneg) presburger

lemma cos_quarter_pos:
  assumes "- 1 \<le> a" "a \<le> 1"
  shows "0 < cos (a * M_PI_4)"
proof -
  have "\<bar>a\<bar> \<le> 1" using assms by simp
  then have "\<bar>a\<bar> * (pi / 4) \<le> 1 * (pi / 4)"
    by (intro mult_right_mono) simp_all
  then have "\<bar>a * M_PI_4\<bar> \<le> pi / 4"
    by (simp add: M_PI_4_def abs_mult)
  then have "- (pi / 2) < a * M_PI_4" "a * M_PI_4 < pi / 2"
    using pi_gt_zero by linarith+
  then show ?thesis by (simp add: cos_gt_zero_pi)
qed

lemma center_asserts:
  "sphere_asserts \<lparr> sphere_type = P8EST_GEOMETRY_BUILTIN_SPHERE, sphere_R2 = R2, sphere_R1 = R1, sphere_R0 = R0,
     sphere_R2byR1 = a1, sphere_R1sqrbyR2 = a2, sphere_R1log = a3, sphere_R1byR0 = a4,
     sphere_R0sqrbyR1 = a5, sphere_R0log = a6, sphere_Clength = a7, sphere_CdetJ = a8 \<rparr> b 12 abc
   = P4EST_ASSERT b (abc 0 < 1 + SC_1000_EPS b \<and> abc 0 > - 1 - SC_1000_EPS b
      \<and> abc 1 < 1 + SC_1000_EPS b \<and> abc 1 > - 1 - SC_1000_EPS b
      \<and> abc 2 < 1 + SC_1000_EPS b \<and> abc 2 > - 1 - SC_1000_EPS b)"
  by (auto simp add: sphere_asserts_def P4EST_ASSERT_def)

lemma tree_cases13:
  assumes "0 \<le> (t::int)" "t < 13"
  shows "(t = 0 \<or> t = 1 \<or> t = 2 \<or> t = 3 \<or> t = 4 \<or> t = 5)
       \<or> (t = 6 \<or> t = 7 \<or> t = 8 \<or> t = 9 \<or> t = 10 \<or> t = 11) \<or> t = 12"
  using assms by presburger




lemma tan_quarter_bound:
  assumes "- 1 \<le> a" "a \<le> 1"
  shows "\<bar>tan (a * M_PI_4)\<bar> \<le> 1"
proof -
  have *: "tan (c * M_PI_4) \<le> 1 \<and> 0 \<le> tan (c * M_PI_4)" if "0 \<le> c" "c \<le> 1" for c
  proof -
    have "c * (pi / 4) \<le> 1 * (pi / 4)"
      using that by (intro mult_right_mono) simp_all
    then have u: "c * M_PI_4 \<le> pi / 4" by (simp add: M_PI_4_def)
    have l: "0 \<le> c * M_PI_4" using that by (simp add: M_PI_4_def)
    have "tan (c * M_PI_4) \<le> tan (pi / 4)"
      using l u pi_gt_zero by (intro tan_mono_le) linarith+
    moreover have "tan 0 \<le> tan (c * M_PI_4)"
      using l u pi_gt_zero by (intro tan_mono_le) linarith+
    ultimately show ?thesis by (simp add: tan_45)
  qed
  show ?thesis
  proof (cases "0 \<le> a")
    case True
    with *[of a] assms show ?thesis by simp
  next
    case False
    with *[of "- a"] assms show ?thesis by simp
  qed
qed

lemma det3_normalised:
  "det3 (store (store (store (store (store (store (store (store (store J
      0 0 (1 - x * x * t)) 0 1 (- x * y * t)) 0 2 x)
      1 0 (- x * y * t)) 1 1 (1 - y * y * t)) 1 2 y)
      2 0 (- x * t)) 2 1 (- y * t)) 2 2 1) = 1"
  by (simp add: det3_def store_apply algebra_simps)

lemma det3_blended:
  "det3 (store (store (store (store (store (store (store (store (store J
      0 0 (p + (1 - x * tanx * t) * derx)) 0 1 (- x * tany * t * dery)) 0 2 (x * Rlog - a + tanx))
      1 0 (- y * tanx * t * derx)) 1 1 (p + (1 - y * tany * t) * dery)) 1 2 (y * Rlog - b + tany))
      2 0 (- tanx * t * derx)) 2 1 (- tany * t * dery)) 2 2 Rlog)
   = (p + derx) * (p + dery) * Rlog + (p + derx) * ((tany - b) * tany * t * dery)
       + (p + dery) * ((tanx - a) * tanx * t * derx)"
  by (simp add: det3_def store_apply algebra_simps)

lemma blended_positive:
  fixes p a b u v dx dy t L0 :: real
  assumes "0 \<le> p" "0 \<le> dx" "0 \<le> dy" "0 < p + dx" "0 < p + dy" "0 < t" "0 < L0"
    and "\<bar>a\<bar> \<le> 1" "\<bar>b\<bar> \<le> 1" "\<bar>u\<bar> \<le> 1" "\<bar>v\<bar> \<le> 1"
  shows "0 < (p + dx) * (p + dy) * (L0 + t * (1 - 1 / 2 * (u * u + v * v)))
           + (p + dx) * ((v - b) * v * t * dy) + (p + dy) * ((u - a) * u * t * dx)"
proof -
  have sq: "w * (c - w) \<le> (1 - w * w) / 2" if "\<bar>c\<bar> \<le> 1" "\<bar>w\<bar> \<le> 1" for c w :: real
  proof -
    have "w * c \<le> \<bar>w\<bar> * \<bar>c\<bar>" by (metis abs_ge_self abs_mult)
    also have "\<dots> \<le> \<bar>w\<bar> * 1" using that by (intro mult_left_mono) simp_all
    finally have 1: "w * c \<le> \<bar>w\<bar>" by simp
    have "0 \<le> (1 - \<bar>w\<bar>) * (1 - \<bar>w\<bar>)" by simp
    then have "2 * \<bar>w\<bar> \<le> 1 + w * w" by (simp add: algebra_simps)
    with 1 show ?thesis by (simp add: algebra_simps)
  qed
  have nn: "0 \<le> 1 - w * w" if "\<bar>w\<bar> \<le> 1" for w :: real
  proof -
    have "\<bar>w\<bar> * \<bar>w\<bar> \<le> 1 * 1" using that by (intro mult_mono) simp_all
    then show ?thesis by (simp add: abs_mult_self_eq)
  qed
  have A: "(p + dx) * (dy * (v * (b - v))) \<le> (p + dx) * ((p + dy) * ((1 - v * v) / 2))"
  proof -
    have "dy * (v * (b - v)) \<le> dy * ((1 - v * v) / 2)"
      using sq[OF assms(9,11)] assms(3) by (intro mult_left_mono)
    also have "\<dots> \<le> (p + dy) * ((1 - v * v) / 2)"
      using nn[OF assms(11)] assms(1) by (intro mult_right_mono) simp_all
    finally show ?thesis using assms(4) by (intro mult_left_mono) simp_all
  qed
  have B: "(p + dy) * (dx * (u * (a - u))) \<le> (p + dy) * ((p + dx) * ((1 - u * u) / 2))"
  proof -
    have "dx * (u * (a - u)) \<le> dx * ((1 - u * u) / 2)"
      using sq[OF assms(8,10)] assms(2) by (intro mult_left_mono)
    also have "\<dots> \<le> (p + dx) * ((1 - u * u) / 2)"
      using nn[OF assms(10)] assms(1) by (intro mult_right_mono) simp_all
    finally show ?thesis using assms(5) by (intro mult_left_mono) simp_all
  qed
  have C: "0 < (p + dx) * (p + dy) * L0" using assms(4,5,7) by simp
  have "(p + dx) * (p + dy) * (L0 + t * (1 - 1 / 2 * (u * u + v * v)))
           + (p + dx) * ((v - b) * v * t * dy) + (p + dy) * ((u - a) * u * t * dx)
        = (p + dx) * (p + dy) * L0
          + t * ((p + dx) * ((p + dy) * ((1 - v * v) / 2)) - (p + dx) * (dy * (v * (b - v)))
                 + ((p + dy) * ((p + dx) * ((1 - u * u) / 2)) - (p + dy) * (dx * (u * (a - u)))))"
    by (simp add: field_simps)
  moreover have "0 \<le> t * ((p + dx) * ((p + dy) * ((1 - v * v) / 2)) - (p + dx) * (dy * (v * (b - v)))
                 + ((p + dy) * ((p + dx) * ((1 - u * u) / 2)) - (p + dy) * (dx * (u * (a - u)))))"
    using A B assms(6) by (intro mult_nonneg_nonneg) simp_all
  ultimately show ?thesis using C by linarith
qed

section \<open>The default inverse transpose\<close>

lemma Jit_entries:
  assumes "geomJ b t abc J_local = Inr (J, detJ)"
  shows "\<exists>Jit'. p8est_geometry_Jit geomJ b t abc Jit = Inr (Jit', detJ)
           \<and> mat3 Jit' = mat3 (\<lambda>i j. cofactor J i j / detJ)"
  using assms
  by (simp add: p8est_geometry_Jit_def Let_def mat3_def vec3_def store_apply cofactor_def
      numeral_2_eq_2)

lemma cofactor_expansion:
  assumes "det3 J \<noteq> 0"
  shows "mat3 (mat_mult (transpose3 (inverse_transpose J)) J) = identity3"
proof -
  have *: "a / d = 1 \<longleftrightarrow> a = d" "a / d = 0 \<longleftrightarrow> a = 0" if "d \<noteq> 0" for a d :: real
    using that by auto
  show ?thesis
    using assms
    apply (simp add: mat3_def vec3_def mat_mult_def transpose3_def identity3_def cofactor_def
        inverse_transpose_def add_divide_distrib[symmetric] *)
    apply (simp add: det3_def numeral_2_eq_2 algebra_simps)
    done
qed

lemma mat_mult_transpose_cong:
  assumes "mat3 A = mat3 B"
  shows "mat3 (mat_mult (transpose3 A) J) = mat3 (mat_mult (transpose3 B) J)"
  using assms by (simp add: mat3_def vec3_def mat_mult_def transpose3_def)

text \<open>
  C3. Whenever the \<open>J\<close> operation of a geometry returns a matrix \<open>J\<close> together with
  its determinant \<open>detJ\<close>, and that determinant is not zero, the default
  \<open>p8est_geometry_Jit\<close> returns the same \<open>detJ\<close> and fills its output with the inverse
  transpose of \<open>J\<close>: entry \<open>(i, j)\<close> is the cofactor of \<open>J\<close> at \<open>(i, j)\<close> divided by
  \<open>detJ\<close>, and the transpose of the output times \<open>J\<close> is the identity matrix.
\<close>

theorem Jit_inverse_transpose:
  assumes "geomJ b which_tree abc J_local = Inr (J, detJ)"
    and "det3 J = detJ"
    and "detJ \<noteq> 0"
  shows "\<exists>Jit'. p8est_geometry_Jit geomJ b which_tree abc Jit = Inr (Jit', detJ)
           \<and> mat3 Jit' = mat3 (inverse_transpose J)
           \<and> mat3 (mat_mult (transpose3 Jit') J) = identity3"
proof -
  obtain Jit' where r: "p8est_geometry_Jit geomJ b which_tree abc Jit = Inr (Jit', detJ)"
    and e: "mat3 Jit' = mat3 (\<lambda>i j. cofactor J i j / detJ)"
    using Jit_entries[of geomJ b which_tree abc J detJ Jit] assms(1) by blast
  have e': "mat3 Jit' = mat3 (inverse_transpose J)"
    using e assms(2) by (simp add: inverse_transpose_def)
  have "mat3 (mat_mult (transpose3 Jit') J) = identity3"
    using mat_mult_transpose_cong[OF e'] cofactor_expansion[of J] assms(2,3) by simp
  with r e' show ?thesis by blast
qed

theorem Jit_inverse_transpose_witness:
  "J_result (geom_J (p8est_geometry_new_sphere 4 2 (sqrt 3)) debug_build 12 (double3 0 0 0) J_local)
     = Inr (identity3, 1)
   \<and> J_result (geom_Jit (p8est_geometry_new_sphere 4 2 (sqrt 3)) debug_build 12 (double3 0 0 0) J_local)
     = Inr (identity3, 1)"
proof -
  let ?g = "p8est_geometry_new_sphere 4 2 (sqrt 3)"
  have J: "J_result (geom_J ?g debug_build 12 (double3 0 0 0) J_local) = Inr (identity3, 1)"
    by (simp add: p8est_geometry_new_sphere_def Let_def center_asserts p8est_geometry_sphere_J_def
        P4EST_ASSERT_def debug_build_def double3_def pow_simps J_result_def mat3_def vec3_def
        store_apply identity3_def)
  then obtain Jm where h1: "geom_J ?g debug_build 12 (double3 0 0 0) J_local = Inr (Jm, 1)"
    and m: "mat3 Jm = identity3"
    by (auto simp add: J_result_def map_sum_def split: sum.splits)
  have h2: "det3 Jm = 1"
    using m by (simp add: mat3_def vec3_def det3_def identity3_def)
  have h3: "(1::real) \<noteq> 0" by simp
  have g: "geom_Jit ?g = p8est_geometry_Jit (geom_J ?g)"
    by (simp add: p8est_geometry_new_sphere_def Let_def)
  from Jit_inverse_transpose[of "geom_J ?g" debug_build 12 "double3 0 0 0" Jm 1 J_local] h1 h2 h3
  obtain Jit' where r: "p8est_geometry_Jit (geom_J ?g) debug_build 12 (double3 0 0 0) J_local = Inr (Jit', 1)"
     and e: "mat3 Jit' = mat3 (inverse_transpose Jm)" by blast
  have "mat3 (inverse_transpose Jm) = identity3"
    using m h2
    by (simp add: mat3_def vec3_def inverse_transpose_def cofactor_def identity3_def numeral_2_eq_2)
  with r e have "J_result (geom_Jit ?g debug_build 12 (double3 0 0 0) J_local) = Inr (identity3, 1)"
    by (simp add: g J_result_def)
  with J show ?thesis by simp
qed

section \<open>Identity geometry: results\<close>

text \<open>
  C7. For the identity geometry, whatever the tree and the point: \<open>X\<close> returns the
  point unchanged, \<open>J\<close> fills the identity matrix and returns 1, \<open>D\<close> returns 1, and
  the \<open>Jit\<close> operation is the very function installed as \<open>J\<close>, so it fills the
  identity matrix and returns 1 as well.
\<close>

theorem identity_geometry:
  "X_result (geom_X p8est_geometry_new_identity b which_tree abc xyz) = Inr (vec3 abc)
   \<and> J_result (geom_J p8est_geometry_new_identity b which_tree abc J) = Inr (identity3, 1)
   \<and> geom_D p8est_geometry_new_identity b which_tree abc = Inr 1
   \<and> geom_Jit p8est_geometry_new_identity = geom_J p8est_geometry_new_identity
   \<and> geom_Jit p8est_geometry_new_identity = p8est_geometry_identity_J
   \<and> J_result (geom_Jit p8est_geometry_new_identity b which_tree abc J) = Inr (identity3, 1)"
  by (simp add: p8est_geometry_new_identity_def p8est_geometry_identity_X_def
      p8est_geometry_identity_J_def p8est_geometry_identity_D_def X_result_def J_result_def
      Let_def mat3_def vec3_def identity3_def store_apply)

section \<open>Connect type: results\<close>

text \<open>
  C8. The enumerators of the connect type have the values 31 for FACE, 32 for EDGE and
  33 for CORNER, DEFAULT is EDGE and so 32, FULL is CORNER and so 33.
\<close>

theorem connect_type_values:
  "P8EST_CONNECT_FACE = 31
   \<and> P8EST_CONNECT_EDGE = 32
   \<and> P8EST_CONNECT_CORNER = 33
   \<and> P8EST_CONNECT_DEFAULT = P8EST_CONNECT_EDGE
   \<and> P8EST_CONNECT_DEFAULT = 32
   \<and> P8EST_CONNECT_FULL = P8EST_CONNECT_CORNER
   \<and> P8EST_CONNECT_FULL = 33"
  by (simp add: P8EST_CONNECT_FACE_def P8EST_CONNECT_EDGE_def P8EST_CONNECT_CORNER_def
      P8EST_CONNECT_DEFAULT_def P8EST_CONNECT_FULL_def)

section \<open>Shell geometry: results\<close>

lemma new_shell_ops:
  "geom_X (p8est_geometry_new_shell R2 R1) = p8est_geometry_shell_X (shell_of R2 R1)"
  "geom_D (p8est_geometry_new_shell R2 R1) = p8est_geometry_shell_D (shell_of R2 R1)"
  "geom_J (p8est_geometry_new_shell R2 R1) = p8est_geometry_shell_J (shell_of R2 R1)"
  "geom_Jit (p8est_geometry_new_shell R2 R1) = p8est_geometry_Jit (p8est_geometry_shell_J (shell_of R2 R1))"
  by (simp_all add: p8est_geometry_new_shell_def shell_of_def Let_def)

lemma shell_of_simps:
  "shell_type (shell_of R2 R1) = P8EST_GEOMETRY_BUILTIN_SHELL"
  "shell_R2byR1 (shell_of R2 R1) = R2 / R1"
  "shell_R1sqrbyR2 (shell_of R2 R1) = R1 * R1 / R2"
  "shell_Rlog (shell_of R2 R1) = ln (R2 / R1)"
  by (simp_all add: shell_of_def)

lemma shell_asserts_domain:
  assumes "shell_type shell = P8EST_GEOMETRY_BUILTIN_SHELL"
    and "0 \<le> t" "t < 24" "- 1 \<le> abc 0" "abc 0 \<le> 1" "- 1 \<le> abc 1" "abc 1 \<le> 1"
    and "1 \<le> abc 2" "abc 2 \<le> 2" "0 < SC_1000_EPS b"
  shows "shell_asserts shell b t abc"
  using assms by (simp add: shell_asserts_def P4EST_ASSERT_def)

lemma shell_D_J:
  assumes "0 \<le> t" "t < 24"
  shows "map_sum id snd (p8est_geometry_shell_J shell b t abc J) = p8est_geometry_shell_D shell b t abc"
  using patch_cases[OF assms]
  apply (elim disjE)
  apply (simp_all add: p8est_geometry_shell_J_def p8est_geometry_shell_D_def Let_def det3_def store_apply J_local_def algebra_simps)
  done

lemma shell_D_value:
  "p8est_geometry_shell_D shell b t abc =
     (if shell_asserts shell b t abc \<and> P4EST_ASSERT b (shell_detJ shell abc > 0)
      then Inr (shell_detJ shell abc) else Inl AssertionFailed)"
  by (simp add: p8est_geometry_shell_D_def shell_detJ_def Let_def det3_def store_apply J_local_def algebra_simps)

lemma shell_J_det:
  assumes "p8est_geometry_shell_J shell b t abc J = Inr (J', d)"
  shows "d = det3 J'"
  using assms unfolding p8est_geometry_shell_J_def Let_def
  by (auto split: if_splits sum.splits)

lemma shell_detJ_pos:
  assumes "0 < R1" "R1 < R2" "- 1 \<le> abc 0" "abc 0 \<le> 1" "- 1 \<le> abc 1" "abc 1 \<le> 1"
    and "shell_R1sqrbyR2 shell = R1 * R1 / R2" "shell_R2byR1 shell = R2 / R1"
    and "shell_Rlog shell = ln (R2 / R1)"
  shows "0 < shell_detJ shell abc"
proof -
  define x where "x = tan (abc 0 * M_PI_4)"
  define y where "y = tan (abc 1 * M_PI_4)"
  define R where "R = R1 * R1 / R2 * pow (R2 / R1) (abc 2)"
  define q where "q = R * sqrt (1 / (x * x + y * y + 1))"
  have "0 < R" unfolding R_def using assms(1,2) by (simp add: pow_pos)
  moreover have "0 < x * x + y * y + 1"
    by (smt (verit) zero_le_square)
  ultimately have q: "0 < q" unfolding q_def by simp
  have cx: "0 < cos (abc 0 * M_PI_4)" and cy: "0 < cos (abc 1 * M_PI_4)"
    using assms(3-6) by (simp_all add: cos_quarter_pos)
  have m: "0 < M_PI_4" by (simp add: M_PI_4_def)
  have l: "0 < ln (R2 / R1)" using assms(1,2) by simp
  have "shell_detJ shell abc =
      q * q * q * (M_PI_4 / (cos (abc 0 * M_PI_4) * cos (abc 0 * M_PI_4)))
        * (M_PI_4 / (cos (abc 1 * M_PI_4) * cos (abc 1 * M_PI_4))) * ln (R2 / R1)"
    by (simp add: shell_detJ_def Let_def assms(7-9) q_def R_def x_def y_def)
  also have "0 < \<dots>" using q cx cy m l by simp
  finally show ?thesis .
qed

text \<open>
  In exact arithmetic the determinant of the shell map is positive: for radii
  \<open>0 < R1 < R2\<close>, every tree from 0 to 23 and every reference point with \<open>abc[0]\<close>,
  \<open>abc[1]\<close> in \<open>[-1, 1]\<close> and \<open>abc[2]\<close> in \<open>[1, 2]\<close>, \<open>D\<close> and \<open>J\<close> return the same
  positive number, the determinant of the matrix that \<open>J\<close> fills. The program computes
  in doubles and does not inherit this for very small radii: with radii near
  \<open>10\<^sup>-\<^sup>1\<^sup>0\<^sup>8\<close> the exact determinant lies below the least positive double, the product
  underflows to \<open>0.0\<close>, and the assertion \<open>detJ > 0\<close> of the program fails.
\<close>

lemma shell_detJ_positive_real:
  assumes "0 < R1" "R1 < R2" "0 \<le> which_tree" "which_tree < 24"
    and "- 1 \<le> abc 0" "abc 0 \<le> 1" "- 1 \<le> abc 1" "abc 1 \<le> 1" "1 \<le> abc 2" "abc 2 \<le> 2"
    and "0 < SC_1000_EPS b"
  shows "(\<exists>d. geom_D (p8est_geometry_new_shell R2 R1) b which_tree abc = Inr d \<and> 0 < d)
       \<and> (\<exists>J' d. geom_J (p8est_geometry_new_shell R2 R1) b which_tree abc J = Inr (J', d)
             \<and> d = det3 J' \<and> 0 < d)"
proof -
  let ?s = "shell_of R2 R1"
  have a: "shell_asserts ?s b which_tree abc"
    using assms(3-11) by (intro shell_asserts_domain) (simp_all add: shell_of_simps)
  have p: "0 < shell_detJ ?s abc"
    using assms(1,2,5-8) by (intro shell_detJ_pos[of R1 R2]) (simp_all add: shell_of_simps)
  have D: "p8est_geometry_shell_D ?s b which_tree abc = Inr (shell_detJ ?s abc)"
    using a p by (simp add: shell_D_value P4EST_ASSERT_def)
  have "map_sum id snd (p8est_geometry_shell_J ?s b which_tree abc J) = Inr (shell_detJ ?s abc)"
    using shell_D_J[OF assms(3,4), of ?s b abc J] D by simp
  then obtain J' where J: "p8est_geometry_shell_J ?s b which_tree abc J = Inr (J', shell_detJ ?s abc)"
    by (cases "p8est_geometry_shell_J ?s b which_tree abc J") auto
  from shell_J_det[OF J] D J p show ?thesis
    by (simp add: new_shell_ops)
qed

text \<open>
  C10. The shell operations see the tree only through \<open>which_tree / 4\<close>: for two trees
  from 0 to 23 with the same quotient, \<open>X\<close>, \<open>J\<close> and \<open>D\<close> give the same outcome at
  the same point, whatever the point. The outcome of \<open>D\<close> is the same for any two trees
  from 0 to 23.
\<close>

theorem shell_tree_dependence:
  assumes "0 \<le> t" "t < 24" "0 \<le> t'" "t' < 24"
  shows "(t sdiv 4 = t' sdiv 4 \<longrightarrow>
            geom_X (p8est_geometry_new_shell R2 R1) b t abc xyz
              = geom_X (p8est_geometry_new_shell R2 R1) b t' abc xyz
          \<and> geom_J (p8est_geometry_new_shell R2 R1) b t abc J
              = geom_J (p8est_geometry_new_shell R2 R1) b t' abc J
          \<and> geom_D (p8est_geometry_new_shell R2 R1) b t abc
              = geom_D (p8est_geometry_new_shell R2 R1) b t' abc)
       \<and> geom_D (p8est_geometry_new_shell R2 R1) b t abc
           = geom_D (p8est_geometry_new_shell R2 R1) b t' abc"
proof -
  let ?s = "shell_of R2 R1"
  have a: "shell_asserts ?s b t abc = shell_asserts ?s b t' abc"
    using assms by (simp add: shell_asserts_def)
  have D: "p8est_geometry_shell_D ?s b t abc = p8est_geometry_shell_D ?s b t' abc"
    by (simp add: shell_D_value a)
  have X: "p8est_geometry_shell_X ?s b t abc xyz = p8est_geometry_shell_X ?s b t' abc xyz"
    if "t sdiv 4 = t' sdiv 4"
    unfolding p8est_geometry_shell_X_def a that ..
  have J: "p8est_geometry_shell_J ?s b t abc J = p8est_geometry_shell_J ?s b t' abc J"
    if "t sdiv 4 = t' sdiv 4"
    unfolding p8est_geometry_shell_J_def a that ..
  from D X J show ?thesis by (simp add: new_shell_ops)
qed

text \<open>An instance: trees 4 and 7 of patch 1, and tree 23 of patch 5 for \<open>D\<close>.\<close>

theorem shell_tree_dependence_witness:
  "(0::int) \<le> 4 \<and> (4::int) < 24 \<and> (0::int) \<le> 7 \<and> (7::int) < 24 \<and> (4::int) sdiv 4 = 7 sdiv 4
   \<and> geom_X (p8est_geometry_new_shell 2 1) debug_build 4 (double3 0 0 (3 / 2)) (double3 0 0 0)
       = geom_X (p8est_geometry_new_shell 2 1) debug_build 7 (double3 0 0 (3 / 2)) (double3 0 0 0)
   \<and> geom_J (p8est_geometry_new_shell 2 1) debug_build 4 (double3 0 0 (3 / 2)) J_local
       = geom_J (p8est_geometry_new_shell 2 1) debug_build 7 (double3 0 0 (3 / 2)) J_local
   \<and> geom_D (p8est_geometry_new_shell 2 1) debug_build 4 (double3 0 0 (3 / 2))
       = geom_D (p8est_geometry_new_shell 2 1) debug_build 7 (double3 0 0 (3 / 2))
   \<and> geom_D (p8est_geometry_new_shell 2 1) debug_build 4 (double3 0 0 (3 / 2))
       = geom_D (p8est_geometry_new_shell 2 1) debug_build 23 (double3 0 0 (3 / 2))"
proof -
  have s: "(4::int) sdiv 4 = 7 sdiv 4" by (simp add: sdiv_nonneg)
  show ?thesis
    using shell_tree_dependence[of 4 7 2 1 debug_build "double3 0 0 (3 / 2)" "double3 0 0 0" J_local]
      shell_tree_dependence[of 4 23 2 1 debug_build "double3 0 0 (3 / 2)" "double3 0 0 0" J_local] s
    by simp
qed








section \<open>Sphere geometry: results\<close>

text \<open>
  The center cube at a point that passes the range assertions of tree 12, which is every
  point when \<^verbatim>\<open>P4EST_DEBUG\<close> is off.
\<close>

lemma center_cube_asserted:
  assumes "P4EST_ASSERT b (abc 0 < 1 + SC_1000_EPS b \<and> abc 0 > - 1 - SC_1000_EPS b
      \<and> abc 1 < 1 + SC_1000_EPS b \<and> abc 1 > - 1 - SC_1000_EPS b
      \<and> abc 2 < 1 + SC_1000_EPS b \<and> abc 2 > - 1 - SC_1000_EPS b)"
  shows "X_result (geom_X (p8est_geometry_new_sphere R2 R1 R0) b 12 abc xyz)
           = Inr (abc 0 * (R0 / sqrt 3), abc 1 * (R0 / sqrt 3), abc 2 * (R0 / sqrt 3))
         \<and> J_result (geom_J (p8est_geometry_new_sphere R2 R1 R0) b 12 abc J)
           = Inr (((R0 / sqrt 3, 0, 0), (0, R0 / sqrt 3, 0), (0, 0, R0 / sqrt 3)), (R0 / sqrt 3) ^ 3)
         \<and> geom_D (p8est_geometry_new_sphere R2 R1 R0) b 12 abc = Inr ((R0 / sqrt 3) ^ 3)"
  using assms
  by (simp add: p8est_geometry_new_sphere_def Let_def center_asserts p8est_geometry_sphere_X_def
        p8est_geometry_sphere_J_def p8est_geometry_sphere_D_def X_result_def J_result_def
        vec3_def mat3_def store_apply pow_simps power3_eq_cube)

text \<open>
  C6. For the sphere geometry with innermost radius \<open>R0\<close> and the center cube, tree 12,
  at every point of the reference cube: \<open>X\<close> returns the point scaled by \<open>R0 / sqrt 3\<close>
  in each coordinate, \<open>J\<close> fills the diagonal matrix with \<open>R0 / sqrt 3\<close> on the
  diagonal, and \<open>J\<close> and \<open>D\<close> return \<open>(R0 / sqrt 3)\<^sup>3\<close>, in every build.
\<close>

theorem sphere_center_cube:
  assumes "- 1 \<le> abc 0" "abc 0 \<le> 1" "- 1 \<le> abc 1" "abc 1 \<le> 1" "- 1 \<le> abc 2" "abc 2 \<le> 1"
    and "0 < SC_1000_EPS b"
  shows "X_result (geom_X (p8est_geometry_new_sphere R2 R1 R0) b 12 abc xyz)
           = Inr (abc 0 * (R0 / sqrt 3), abc 1 * (R0 / sqrt 3), abc 2 * (R0 / sqrt 3))
         \<and> J_result (geom_J (p8est_geometry_new_sphere R2 R1 R0) b 12 abc J)
           = Inr (((R0 / sqrt 3, 0, 0), (0, R0 / sqrt 3, 0), (0, 0, R0 / sqrt 3)), (R0 / sqrt 3) ^ 3)
         \<and> geom_D (p8est_geometry_new_sphere R2 R1 R0) b 12 abc = Inr ((R0 / sqrt 3) ^ 3)"
proof -
  have "P4EST_ASSERT b (abc 0 < 1 + SC_1000_EPS b \<and> abc 0 > - 1 - SC_1000_EPS b
      \<and> abc 1 < 1 + SC_1000_EPS b \<and> abc 1 > - 1 - SC_1000_EPS b
      \<and> abc 2 < 1 + SC_1000_EPS b \<and> abc 2 > - 1 - SC_1000_EPS b)"
    using assms by (simp add: P4EST_ASSERT_def)
  then show ?thesis by (rule center_cube_asserted)
qed

text \<open>
  An instance: \<open>R0 = 1/2\<close> and the corner \<open>(1, 1, 1)\<close> of the cube, in the debug build;
  \<open>X\<close> returns \<open>(1/2 / sqrt 3, 1/2 / sqrt 3, 1/2 / sqrt 3)\<close> and \<open>D\<close> returns
  \<open>(1/2 / sqrt 3)\<^sup>3\<close>.
\<close>

theorem sphere_center_cube_witness:
  "- 1 \<le> double3 1 1 1 0 \<and> double3 1 1 1 0 \<le> 1
   \<and> - 1 \<le> double3 1 1 1 1 \<and> double3 1 1 1 1 \<le> 1
   \<and> - 1 \<le> double3 1 1 1 2 \<and> double3 1 1 1 2 \<le> 1
   \<and> 0 < SC_1000_EPS debug_build
   \<and> X_result (geom_X (p8est_geometry_new_sphere 2 1 (1 / 2)) debug_build 12 (double3 1 1 1) (double3 0 0 0))
       = Inr (1 / 2 / sqrt 3, 1 / 2 / sqrt 3, 1 / 2 / sqrt 3)
   \<and> J_result (geom_J (p8est_geometry_new_sphere 2 1 (1 / 2)) debug_build 12 (double3 1 1 1) J_local)
       = Inr (((1 / 2 / sqrt 3, 0, 0), (0, 1 / 2 / sqrt 3, 0), (0, 0, 1 / 2 / sqrt 3)),
              (1 / 2 / sqrt 3) ^ 3)
   \<and> geom_D (p8est_geometry_new_sphere 2 1 (1 / 2)) debug_build 12 (double3 1 1 1)
       = Inr ((1 / 2 / sqrt 3) ^ 3)"
proof -
  have h: "0 < SC_1000_EPS debug_build" by (rule debug_build_simps)
  have d: "double3 1 1 1 0 = 1" "double3 1 1 1 1 = 1" "double3 1 1 1 2 = 1"
    by (simp_all add: double3_def)
  from sphere_center_cube[of "double3 1 1 1" debug_build 2 1 "1 / 2" "double3 0 0 0" J_local] h d
  show ?thesis by simp
qed

lemma new_sphere_ops:
  "geom_X (p8est_geometry_new_sphere R2 R1 R0) = p8est_geometry_sphere_X (sphere_of R2 R1 R0)"
  "geom_D (p8est_geometry_new_sphere R2 R1 R0) = p8est_geometry_sphere_D (sphere_of R2 R1 R0)"
  "geom_J (p8est_geometry_new_sphere R2 R1 R0) = p8est_geometry_sphere_J (sphere_of R2 R1 R0)"
  by (simp_all add: p8est_geometry_new_sphere_def sphere_of_def Let_def)

lemma sphere_of_simps:
  "sphere_type (sphere_of R2 R1 R0) = P8EST_GEOMETRY_BUILTIN_SPHERE"
  "sphere_R2byR1 (sphere_of R2 R1 R0) = R2 / R1"
  "sphere_R1sqrbyR2 (sphere_of R2 R1 R0) = R1 * R1 / R2"
  "sphere_R1log (sphere_of R2 R1 R0) = ln (R2 / R1)"
  "sphere_R1byR0 (sphere_of R2 R1 R0) = R1 / R0"
  "sphere_R0sqrbyR1 (sphere_of R2 R1 R0) = R0 * R0 / R1"
  "sphere_R0log (sphere_of R2 R1 R0) = ln (R1 / R0)"
  "sphere_Clength (sphere_of R2 R1 R0) = R0 / sqrt 3"
  "sphere_CdetJ (sphere_of R2 R1 R0) = R0 / sqrt 3 * (R0 / sqrt 3) * (R0 / sqrt 3)"
  by (simp_all add: sphere_of_def pow_simps)

lemma sphere_asserts_domain:
  assumes "sphere_type sphere = P8EST_GEOMETRY_BUILTIN_SPHERE"
    and "0 \<le> t" "t < 12" "- 1 \<le> abc 0" "abc 0 \<le> 1" "- 1 \<le> abc 1" "abc 1 \<le> 1"
    and "1 \<le> abc 2" "abc 2 \<le> 2" "0 < SC_1000_EPS b"
  shows "sphere_asserts sphere b t abc"
  using assms by (simp add: sphere_asserts_def P4EST_ASSERT_def)

lemma sphere_asserts_center:
  assumes "sphere_type sphere = P8EST_GEOMETRY_BUILTIN_SPHERE"
    and "- 1 \<le> abc 0" "abc 0 \<le> 1" "- 1 \<le> abc 1" "abc 1 \<le> 1"
    and "- 1 \<le> abc 2" "abc 2 \<le> 1" "0 < SC_1000_EPS b"
  shows "sphere_asserts sphere b 12 abc"
  using assms by (simp add: sphere_asserts_def P4EST_ASSERT_def)






section \<open>The determinant operation and the Jacobian\<close>

lemma sphere_D_J_outer:
  assumes "t = 0 \<or> t = 1 \<or> t = 2 \<or> t = 3 \<or> t = 4 \<or> t = 5"
  shows "map_sum id snd (p8est_geometry_sphere_J sphere b t abc J) = p8est_geometry_sphere_D sphere b t abc"
proof -
  define x where "x = tan (abc 0 * M_PI_4)"
  define y where "y = tan (abc 1 * M_PI_4)"
  define derx where "derx = M_PI_4 / (cos (abc 0 * M_PI_4) * cos (abc 0 * M_PI_4))"
  define dery where "dery = M_PI_4 / (cos (abc 1 * M_PI_4) * cos (abc 1 * M_PI_4))"
  define tt where "tt = 1 / (x * x + y * y + 1)"
  define q where "q = sphere_R1sqrbyR2 sphere * pow (sphere_R2byR1 sphere) (abc 2) * sqrt tt"
  show ?thesis
    unfolding p8est_geometry_sphere_J_def p8est_geometry_sphere_D_def Let_def
      x_def[symmetric] y_def[symmetric] derx_def[symmetric] dery_def[symmetric]
      tt_def[symmetric] q_def[symmetric]
    using assms
    apply (elim disjE)
    apply (simp_all add: det3_def store_apply J_local_def mapJ_def mapM_def algebra_simps)
    done
qed

lemma sphere_D_J_inner:
  assumes "t = 6 \<or> t = 7 \<or> t = 8 \<or> t = 9 \<or> t = 10 \<or> t = 11"
  shows "map_sum id snd (p8est_geometry_sphere_J sphere b t abc J) = p8est_geometry_sphere_D sphere b t abc"
proof -
  define p where "p = 2 - abc 2"
  define tanx where "tanx = tan (abc 0 * M_PI_4)"
  define tany where "tany = tan (abc 1 * M_PI_4)"
  define derx where "derx = (1 - p) * M_PI_4 / (cos (abc 0 * M_PI_4) * cos (abc 0 * M_PI_4))"
  define dery where "dery = (1 - p) * M_PI_4 / (cos (abc 1 * M_PI_4) * cos (abc 1 * M_PI_4))"
  define x where "x = p * abc 0 + (1 - p) * tanx"
  define y where "y = p * abc 1 + (1 - p) * tany"
  define tsqr where "tsqr = tanx * tanx + tany * tany"
  define tt where "tt = 1 / (1 + (1 - p) * tsqr + 2 * p)"
  define q where "q = sphere_R0sqrbyR1 sphere * pow (sphere_R1byR0 sphere) (abc 2) * sqrt tt"
  define Rlog where "Rlog = sphere_R0log sphere + tt * (1 - 1 / 2 * tsqr)"
  show ?thesis
    unfolding p8est_geometry_sphere_J_def p8est_geometry_sphere_D_def Let_def
      p_def[symmetric] tanx_def[symmetric] tany_def[symmetric] derx_def[symmetric] dery_def[symmetric]
      x_def[symmetric] y_def[symmetric] tsqr_def[symmetric]
      tt_def[symmetric] q_def[symmetric] Rlog_def[symmetric]
    using assms
    apply (elim disjE)
    apply (simp_all add: det3_def store_apply J_local_def mapJ_def mapM_def algebra_simps)
    done
qed


lemma sphere_D_J_center:
  "map_sum id snd (p8est_geometry_sphere_J sphere b 12 abc J) = p8est_geometry_sphere_D sphere b 12 abc"
  by (simp add: p8est_geometry_sphere_J_def p8est_geometry_sphere_D_def Let_def)

lemma sphere_D_J:
  assumes "0 \<le> t" "t < 13"
  shows "map_sum id snd (p8est_geometry_sphere_J sphere b t abc J) = p8est_geometry_sphere_D sphere b t abc"
  using tree_cases13[OF assms] sphere_D_J_outer[of t] sphere_D_J_inner[of t] sphere_D_J_center
  by blast

lemma sphere_J_det:
  assumes "p8est_geometry_sphere_J (sphere_of R2 R1 R0) b t abc J = Inr (J', d)"
  shows "d = det3 J'"
proof (cases "t < 12")
  case True
  then show ?thesis
    using assms unfolding p8est_geometry_sphere_J_def Let_def
    by (auto split: if_splits sum.splits)
next
  case False
  then show ?thesis
    using assms
    by (auto simp add: p8est_geometry_sphere_J_def Let_def det3_def store_apply sphere_of_simps
        split: if_splits)
qed

lemma identity_agrees: "D_agrees_with_J p8est_geometry_new_identity b t abc J"
  by (simp add: D_agrees_with_J_def p8est_geometry_new_identity_def p8est_geometry_identity_J_def
      p8est_geometry_identity_D_def Let_def det3_def store_apply)

lemma agrees_intro:
  assumes "map_sum id snd (geom_J g b t abc J) = geom_D g b t abc"
    and "\<And>J' d. geom_J g b t abc J = Inr (J', d) \<Longrightarrow> d = det3 J'"
  shows "D_agrees_with_J g b t abc J"
  using assms unfolding D_agrees_with_J_def
  by (cases "geom_J g b t abc J") auto

lemma returns_intro:
  assumes "D_agrees_with_J g b t abc J" "geom_D g b t abc = Inr d"
  shows "D_returns_det_J g b t abc J"
  using assms unfolding D_agrees_with_J_def D_returns_det_J_def
  by (cases "geom_J g b t abc J") auto

lemma sphere_D_outer_returns:
  assumes "0 < R1" "R1 < R2" "0 \<le> t" "t < 6"
    and "- 1 \<le> abc 0" "abc 0 \<le> 1" "- 1 \<le> abc 1" "abc 1 \<le> 1" "1 \<le> abc 2" "abc 2 \<le> 2"
    and "0 < SC_1000_EPS b"
  shows "\<exists>d. p8est_geometry_sphere_D (sphere_of R2 R1 R0) b t abc = Inr d \<and> 0 < d"
proof -
  let ?s = "sphere_of R2 R1 R0"
  define x where "x = tan (abc 0 * M_PI_4)"
  define y where "y = tan (abc 1 * M_PI_4)"
  define derx where "derx = M_PI_4 / (cos (abc 0 * M_PI_4) * cos (abc 0 * M_PI_4))"
  define dery where "dery = M_PI_4 / (cos (abc 1 * M_PI_4) * cos (abc 1 * M_PI_4))"
  define tt where "tt = 1 / (x * x + y * y + 1)"
  define q where "q = sphere_R1sqrbyR2 ?s * pow (sphere_R2byR1 ?s) (abc 2) * sqrt tt"
  have a: "sphere_asserts ?s b t abc"
    using assms by (intro sphere_asserts_domain) (simp_all add: sphere_of_simps)
  have "0 < x * x + y * y + 1" by (smt (verit) zero_le_square)
  then have tt: "0 < tt" by (simp add: tt_def)
  have "0 < sphere_R1sqrbyR2 ?s * pow (sphere_R2byR1 ?s) (abc 2)"
    using assms(1,2) by (simp add: sphere_of_simps pow_pos)
  with tt have q: "0 < q" by (simp add: q_def)
  have m: "0 < M_PI_4" by (simp add: M_PI_4_def)
  have dx: "0 < derx" and dy: "0 < dery"
    using cos_quarter_pos[OF assms(5,6)] cos_quarter_pos[OF assms(7,8)] m
    by (simp_all add: derx_def dery_def)
  have l: "0 < sphere_R1log ?s" using assms(1,2) by (simp add: sphere_of_simps)
  have pos: "0 < det3 (store (store (store (store (store (store (store (store (store J_local
      0 0 (1 - x * x * tt)) 0 1 (- x * y * tt)) 0 2 x)
      1 0 (- x * y * tt)) 1 1 (1 - y * y * tt)) 1 2 y)
      2 0 (- x * tt)) 2 1 (- y * tt)) 2 2 1) * (q * q * q * derx * dery * sphere_R1log ?s)"
    unfolding det3_normalised using q dx dy l by simp
  have t12: "t < 12" using assms(4) by simp
  show ?thesis
    unfolding p8est_geometry_sphere_D_def Let_def
      x_def[symmetric] y_def[symmetric] derx_def[symmetric] dery_def[symmetric]
      tt_def[symmetric] q_def[symmetric]
    using a pos t12 assms(4) by (simp add: P4EST_ASSERT_def)
qed

lemma sphere_D_inner_returns:
  assumes "0 < R0" "R0 < R1" "6 \<le> t" "t < 12"
    and "- 1 \<le> abc 0" "abc 0 \<le> 1" "- 1 \<le> abc 1" "abc 1 \<le> 1" "1 \<le> abc 2" "abc 2 \<le> 2"
    and "0 < SC_1000_EPS b"
  shows "\<exists>d. p8est_geometry_sphere_D (sphere_of R2 R1 R0) b t abc = Inr d \<and> 0 < d"
proof -
  let ?s = "sphere_of R2 R1 R0"
  define p where "p = 2 - abc 2"
  define tanx where "tanx = tan (abc 0 * M_PI_4)"
  define tany where "tany = tan (abc 1 * M_PI_4)"
  define derx where "derx = (1 - p) * M_PI_4 / (cos (abc 0 * M_PI_4) * cos (abc 0 * M_PI_4))"
  define dery where "dery = (1 - p) * M_PI_4 / (cos (abc 1 * M_PI_4) * cos (abc 1 * M_PI_4))"
  define x where "x = p * abc 0 + (1 - p) * tanx"
  define y where "y = p * abc 1 + (1 - p) * tany"
  define tsqr where "tsqr = tanx * tanx + tany * tany"
  define tt where "tt = 1 / (1 + (1 - p) * tsqr + 2 * p)"
  define q where "q = sphere_R0sqrbyR1 ?s * pow (sphere_R1byR0 ?s) (abc 2) * sqrt tt"
  define Rlog where "Rlog = sphere_R0log ?s + tt * (1 - 1 / 2 * tsqr)"
  have a: "sphere_asserts ?s b t abc"
    using assms by (intro sphere_asserts_domain) (simp_all add: sphere_of_simps)
  have p: "0 \<le> p" "0 \<le> 1 - p" using assms(9,10) by (simp_all add: p_def)
  have "0 \<le> tsqr" by (simp add: tsqr_def)
  then have "0 \<le> (1 - p) * tsqr" using p by simp
  then have "0 < 1 + (1 - p) * tsqr + 2 * p" using p by linarith
  then have tt: "0 < tt" by (simp add: tt_def)
  have "0 < sphere_R0sqrbyR1 ?s * pow (sphere_R1byR0 ?s) (abc 2)"
    using assms(1,2) by (simp add: sphere_of_simps pow_pos)
  with tt have q: "0 < q" by (simp add: q_def)
  have m: "0 < M_PI_4" by (simp add: M_PI_4_def)
  have cx: "0 < M_PI_4 / (cos (abc 0 * M_PI_4) * cos (abc 0 * M_PI_4))"
    and cy: "0 < M_PI_4 / (cos (abc 1 * M_PI_4) * cos (abc 1 * M_PI_4))"
    using cos_quarter_pos[OF assms(5,6)] cos_quarter_pos[OF assms(7,8)] m by simp_all
  have dxe: "derx = (1 - p) * (M_PI_4 / (cos (abc 0 * M_PI_4) * cos (abc 0 * M_PI_4)))"
    and dye: "dery = (1 - p) * (M_PI_4 / (cos (abc 1 * M_PI_4) * cos (abc 1 * M_PI_4)))"
    by (simp_all add: derx_def dery_def)
  have dx: "0 \<le> derx"
    unfolding dxe by (intro mult_nonneg_nonneg less_imp_le[OF cx] p(2))
  have dy: "0 \<le> dery"
    unfolding dye by (intro mult_nonneg_nonneg less_imp_le[OF cy] p(2))
  have pdx: "0 < p + derx"
  proof (cases "p = 0")
    case True
    then show ?thesis unfolding dxe using cx by simp
  next
    case False
    then show ?thesis using p dx by linarith
  qed
  have pdy: "0 < p + dery"
  proof (cases "p = 0")
    case True
    then show ?thesis unfolding dye using cy by simp
  next
    case False
    then show ?thesis using p dy by linarith
  qed
  have l: "0 < sphere_R0log ?s" using assms(1,2) by (simp add: sphere_of_simps)
  have ab: "\<bar>abc 0\<bar> \<le> 1" "\<bar>abc 1\<bar> \<le> 1" using assms(5-8) by simp_all
  have uv: "\<bar>tanx\<bar> \<le> 1" "\<bar>tany\<bar> \<le> 1"
    unfolding tanx_def tany_def
    using tan_quarter_bound[OF assms(5,6)] tan_quarter_bound[OF assms(7,8)] by simp_all
  have d: "0 < det3 (store (store (store (store (store (store (store (store (store J_local
      0 0 (p + (1 - x * tanx * tt) * derx)) 0 1 (- x * tany * tt * dery)) 0 2 (x * Rlog - abc 0 + tanx))
      1 0 (- y * tanx * tt * derx)) 1 1 (p + (1 - y * tany * tt) * dery)) 1 2 (y * Rlog - abc 1 + tany))
      2 0 (- tanx * tt * derx)) 2 1 (- tany * tt * dery)) 2 2 Rlog)"
    unfolding det3_blended Rlog_def tsqr_def
    using blended_positive[OF p(1) dx dy pdx pdy tt l ab uv] by simp
  have pos: "0 < det3 (store (store (store (store (store (store (store (store (store J_local
      0 0 (p + (1 - x * tanx * tt) * derx)) 0 1 (- x * tany * tt * dery)) 0 2 (x * Rlog - abc 0 + tanx))
      1 0 (- y * tanx * tt * derx)) 1 1 (p + (1 - y * tany * tt) * dery)) 1 2 (y * Rlog - abc 1 + tany))
      2 0 (- tanx * tt * derx)) 2 1 (- tany * tt * dery)) 2 2 Rlog) * (q * q * q)"
    using d q by simp
  have t6: "\<not> t < 6" using assms(3) by simp
  show ?thesis
    unfolding p8est_geometry_sphere_D_def Let_def
      p_def[symmetric] tanx_def[symmetric] tany_def[symmetric] derx_def[symmetric] dery_def[symmetric]
      x_def[symmetric] y_def[symmetric] tsqr_def[symmetric]
      tt_def[symmetric] q_def[symmetric] Rlog_def[symmetric]
    using a pos t6 assms(4) by (simp add: P4EST_ASSERT_def)
qed

lemma shell_D_returns:
  assumes "0 < R1" "R1 < R2" "0 \<le> t" "t < 24" "shell_domain abc" "0 < SC_1000_EPS b"
  shows "\<exists>d. geom_D (p8est_geometry_new_shell R2 R1) b t abc = Inr d \<and> 0 < d"
proof -
  let ?s = "shell_of R2 R1"
  have a: "shell_asserts ?s b t abc"
    using assms by (intro shell_asserts_domain) (simp_all add: shell_of_simps shell_domain_def)
  have p: "0 < shell_detJ ?s abc"
    using assms by (intro shell_detJ_pos[of R1 R2]) (simp_all add: shell_of_simps shell_domain_def)
  show ?thesis
    using a p by (simp add: new_shell_ops shell_D_value P4EST_ASSERT_def)
qed

lemma sphere_D_returns:
  assumes "0 < R0" "R0 < R1" "R1 < R2" "0 \<le> t" "t < 13" "sphere_domain t abc"
    and "0 < SC_1000_EPS b"
  shows "\<exists>d. geom_D (p8est_geometry_new_sphere R2 R1 R0) b t abc = Inr d \<and> 0 < d"
proof -
  consider "t < 6" | "6 \<le> t" "t < 12" | "t = 12" using assms(5) by linarith
  then show ?thesis
  proof cases
    case 1
    then show ?thesis
      using assms sphere_D_outer_returns[of R1 R2 t abc b R0]
      by (simp add: new_sphere_ops sphere_domain_def)
  next
    case 2
    then show ?thesis
      using assms sphere_D_inner_returns[of R0 R1 t abc b R2]
      by (simp add: new_sphere_ops sphere_domain_def)
  next
    case 3
    have "sphere_asserts (sphere_of R2 R1 R0) b 12 abc"
      using assms 3 by (intro sphere_asserts_center) (simp_all add: sphere_of_simps sphere_domain_def)
    then show ?thesis
      using 3 assms(1)
      by (simp add: new_sphere_ops p8est_geometry_sphere_D_def sphere_of_simps)
  qed
qed

text \<open>
  C2. For each built-in geometry and every point of its domain, \<open>D\<close> returns the
  determinant of the matrix that \<open>J\<close> fills at the same tree and point, which is also
  the value that \<open>J\<close> returns: for the identity at any tree and point, for the shell
  with radii \<open>0 < R1 < R2\<close> at trees 0 to 23, for the sphere with radii
  \<open>0 < R0 < R1 < R2\<close> at trees 0 to 12. This holds although \<open>D\<close> of shell and sphere
  takes the determinant of one matrix for all patches and \<open>J\<close> permutes and signs the
  rows by patch. Beyond the domain and for any radii the two outcomes still agree:
  whenever \<open>J\<close> returns, \<open>D\<close> returns the determinant of its matrix, and when \<open>J\<close>
  aborts, \<open>D\<close> aborts.
\<close>

theorem builtin_D_is_det_J:
  "D_returns_det_J p8est_geometry_new_identity b which_tree abc J
   \<and> (0 < R1 \<and> R1 < R2 \<and> 0 \<le> which_tree \<and> which_tree < 24 \<and> shell_domain abc
        \<and> 0 < SC_1000_EPS b \<longrightarrow>
        D_returns_det_J (p8est_geometry_new_shell R2 R1) b which_tree abc J)
   \<and> (0 < R0 \<and> R0 < R1 \<and> R1 < R2 \<and> 0 \<le> which_tree \<and> which_tree < 13
        \<and> sphere_domain which_tree abc \<and> 0 < SC_1000_EPS b \<longrightarrow>
        D_returns_det_J (p8est_geometry_new_sphere R2 R1 R0) b which_tree abc J)
   \<and> D_agrees_with_J p8est_geometry_new_identity b which_tree abc J
   \<and> (0 \<le> which_tree \<and> which_tree < 24 \<longrightarrow>
        D_agrees_with_J (p8est_geometry_new_shell R2 R1) b which_tree abc J)
   \<and> (0 \<le> which_tree \<and> which_tree < 13 \<longrightarrow>
        D_agrees_with_J (p8est_geometry_new_sphere R2 R1 R0) b which_tree abc J)"
proof -
  have i: "D_agrees_with_J p8est_geometry_new_identity b which_tree abc J"
    by (rule identity_agrees)
  have s: "D_agrees_with_J (p8est_geometry_new_shell R2 R1) b which_tree abc J"
    if "0 \<le> which_tree \<and> which_tree < 24"
    using that by (intro agrees_intro) (simp_all add: new_shell_ops shell_D_J shell_J_det)
  have p: "D_agrees_with_J (p8est_geometry_new_sphere R2 R1 R0) b which_tree abc J"
    if "0 \<le> which_tree \<and> which_tree < 13"
    using that by (intro agrees_intro) (simp_all add: new_sphere_ops sphere_D_J sphere_J_det)
  have i': "D_returns_det_J p8est_geometry_new_identity b which_tree abc J"
    by (rule returns_intro[OF i])
      (simp add: p8est_geometry_new_identity_def p8est_geometry_identity_D_def)
  have s': "D_returns_det_J (p8est_geometry_new_shell R2 R1) b which_tree abc J"
    if h: "0 < R1 \<and> R1 < R2 \<and> 0 \<le> which_tree \<and> which_tree < 24 \<and> shell_domain abc
        \<and> 0 < SC_1000_EPS b"
  proof -
    obtain d where "geom_D (p8est_geometry_new_shell R2 R1) b which_tree abc = Inr d"
      using shell_D_returns[of R1 R2 which_tree abc b] h by blast
    then show ?thesis using s h by (intro returns_intro) simp_all
  qed
  have p': "D_returns_det_J (p8est_geometry_new_sphere R2 R1 R0) b which_tree abc J"
    if h: "0 < R0 \<and> R0 < R1 \<and> R1 < R2 \<and> 0 \<le> which_tree \<and> which_tree < 13
        \<and> sphere_domain which_tree abc \<and> 0 < SC_1000_EPS b"
  proof -
    obtain d where "geom_D (p8est_geometry_new_sphere R2 R1 R0) b which_tree abc = Inr d"
      using sphere_D_returns[of R0 R1 R2 which_tree abc b] h by blast
    then show ?thesis using p h by (intro returns_intro) simp_all
  qed
  from i s p i' s' p' show ?thesis by blast
qed

text \<open>
  An instance: radii 1/2, 1 and 2, tree 12 and the point \<open>(0, 0, 1)\<close>, which lies in the
  domain of that tree in each of the three geometries.
\<close>

theorem builtin_D_is_det_J_witness:
  "(0::real) < 1 / 2 \<and> (1 / 2::real) < 1 \<and> (1::real) < 2 \<and> (0::int) \<le> 12 \<and> (12::int) < 24
   \<and> (12::int) < 13 \<and> shell_domain (double3 0 0 1) \<and> sphere_domain 12 (double3 0 0 1)
   \<and> 0 < SC_1000_EPS debug_build
   \<and> D_returns_det_J p8est_geometry_new_identity debug_build 12 (double3 0 0 1) J_local
   \<and> D_returns_det_J (p8est_geometry_new_shell 2 1) debug_build 12 (double3 0 0 1) J_local
   \<and> D_returns_det_J (p8est_geometry_new_sphere 2 1 (1 / 2)) debug_build 12 (double3 0 0 1) J_local
   \<and> D_agrees_with_J p8est_geometry_new_identity debug_build 12 (double3 0 0 1) J_local
   \<and> D_agrees_with_J (p8est_geometry_new_shell 2 1) debug_build 12 (double3 0 0 1) J_local
   \<and> D_agrees_with_J (p8est_geometry_new_sphere 2 1 (1 / 2)) debug_build 12 (double3 0 0 1) J_local"
proof -
  have d: "shell_domain (double3 0 0 1)" "sphere_domain 12 (double3 0 0 1)"
    by (simp_all add: shell_domain_def sphere_domain_def double3_def)
  have h: "0 < SC_1000_EPS debug_build" by (rule debug_build_simps)
  show ?thesis
    using builtin_D_is_det_J[of debug_build 12 "double3 0 0 1" J_local 1 2 "1 / 2"] d h
    by simp
qed

end
